theory Spec2Isabelle
  imports Complex_Main
begin

section \<open>Space shooter: the simulation core of \<open>main.cpp\<close>\<close>

text \<open>
  The development embeds the simulation part of \<open>src/main.cpp\<close>: the classes
  \<open>Particle\<close>, \<open>Explosion\<close>, \<open>Entity\<close>, \<open>Bullet\<close>, \<open>Laser\<close>, \<open>Shield\<close>,
  \<open>Player\<close>, \<open>Enemy\<close>, \<open>BossEnemy\<close>, \<open>PowerUp\<close>, \<open>Level\<close> and \<open>Game\<close>.

  Conventions of the embedding.
  \<^item> A C++ \<open>int\<close> is a HOL \<open>int\<close>. The model agrees with the program on every run in
    which no signed arithmetic overflows; signed overflow is undefined behaviour in C++.
  \<^item> A C++ \<open>float\<close> is a HOL \<open>real\<close>: rounding is not modelled. Concrete evaluations
    below only use values and operations that are exact in binary32.
  \<^item> A class is a record; inheritance is record extension; a method that mutates its
    object takes the object and returns the new one.
  \<^item> What the program reads from its surroundings each frame (the clock, the keyboard,
    the event queue, \<open>rand()\<close>, \<open>std::random_device\<close>) is the record \<open>Input\<close>.
  \<^item> The SFML test \<open>a.getBounds().intersects(b.getBounds())\<close> depends on texture files
    that are not part of the sources; it is a parameter \<open>isect\<close> of the model, a
    predicate on the sprite data of the two entities.
  \<^item> Drawing, sounds and the text widgets written by \<open>updateUI\<close> are left out: no
    simulation code reads them.
\<close>

subsection \<open>Enumerations\<close>

datatype GameState = MainMenu | Playing | BossFight | GameOver | Victory

datatype WeaponType = Weapon_Basic | Weapon_Double | Weapon_Triple | Weapon_Laser

datatype EnemyType = Enemy_Basic | Enemy_Fast | Enemy_Tanky | Enemy_Boss

datatype PowerUpType = PowerUp_Health | PowerUp_Shield | PowerUp_WeaponUpgrade | PowerUp_ScoreBoost

type_synonym Vector2f = "real \<times> real"

subsection \<open>Particle and Explosion\<close>

record Particle =
  position :: Vector2f
  velocity :: Vector2f
  lifetime :: real
  maxLifetime :: real

definition Particle_new :: "Vector2f \<Rightarrow> real \<Rightarrow> real \<Rightarrow> real \<Rightarrow> Particle" where
  "Particle_new pos spd angle life =
     \<lparr>position = pos, velocity = (cos angle * spd, sin angle * spd),
      lifetime = life, maxLifetime = life\<rparr>"

text \<open>\<open>Particle::update\<close> returns whether the particle is still alive.\<close>

definition Particle_update :: "real \<Rightarrow> Particle \<Rightarrow> bool \<times> Particle" where
  "Particle_update dt p =
     (let p1 = p\<lparr>lifetime := lifetime p - dt\<rparr> in
      if lifetime p1 \<le> 0 then (False, p1)
      else (True, p1\<lparr>position :=
              (fst (Particle.position p1) + fst (velocity p1) * dt,
               snd (Particle.position p1) + snd (velocity p1) * dt)\<rparr>))"

record Explosion =
  position :: Vector2f
  particles :: "Particle list"
  isActive :: bool

text \<open>
  The constructor draws an angle, a speed and a lifetime for each of its 30 particles;
  \<open>draw i\<close> is the triple drawn for particle \<open>i\<close>.
\<close>

definition Explosion_new :: "(nat \<Rightarrow> real \<times> real \<times> real) \<Rightarrow> Vector2f \<Rightarrow> Explosion" where
  "Explosion_new draw pos =
     \<lparr>position = pos,
      particles = map (\<lambda>i. case draw i of (angle, spd, life) \<Rightarrow> Particle_new pos spd angle life) [0..<30],
      isActive = True\<rparr>"

fun Explosion_update_loop :: "real \<Rightarrow> Particle list \<Rightarrow> Particle list" where
  "Explosion_update_loop dt [] = []"
| "Explosion_update_loop dt (p # ps) =
     (case Particle_update dt p of
        (alive, p') \<Rightarrow>
          if \<not> alive then Explosion_update_loop dt ps
          else p' # Explosion_update_loop dt ps)"

definition Explosion_update :: "real \<Rightarrow> Explosion \<Rightarrow> bool \<times> Explosion" where
  "Explosion_update dt e =
     (let e1 = e\<lparr>particles := Explosion_update_loop dt (particles e)\<rparr>
      in (particles e1 \<noteq> [], e1))"

subsection \<open>Entity\<close>

text \<open>
  An entity is its sprite: the texture it was built from, and the position, scale and
  rotation set afterwards. The origin of every sprite is the centre of its texture.
\<close>

record Entity =
  texturePath :: string
  position :: Vector2f
  scale :: Vector2f
  rotation :: real

type_synonym Intersects = "Entity \<Rightarrow> Entity \<Rightarrow> bool"

definition sprite :: "'a Entity_scheme \<Rightarrow> Entity" where
  "sprite e = Entity.truncate e"

definition setPosition :: "Vector2f \<Rightarrow> 'a Entity_scheme \<Rightarrow> 'a Entity_scheme" where
  "setPosition v e = e\<lparr>position := v\<rparr>"

definition move :: "real \<Rightarrow> real \<Rightarrow> 'a Entity_scheme \<Rightarrow> 'a Entity_scheme" where
  "move dx dy e = e\<lparr>position := (fst (Entity.position e) + dx, snd (Entity.position e) + dy)\<rparr>"

definition getPosition :: "'a Entity_scheme \<Rightarrow> Vector2f" where
  "getPosition e = Entity.position e"

definition setScale :: "real \<Rightarrow> real \<Rightarrow> 'a Entity_scheme \<Rightarrow> 'a Entity_scheme" where
  "setScale sx sy e = e\<lparr>scale := (sx, sy)\<rparr>"

definition setRotation :: "real \<Rightarrow> 'a Entity_scheme \<Rightarrow> 'a Entity_scheme" where
  "setRotation a e = e\<lparr>rotation := a\<rparr>"

subsection \<open>Bullet and Laser\<close>

record Bullet = Entity +
  damage :: real

definition Bullet_speed :: real where
  "Bullet_speed = 600"

definition Bullet_new :: "string \<Rightarrow> real \<Rightarrow> Bullet" where
  "Bullet_new path dmg =
     setScale 0.5 0.5 \<lparr>texturePath = path, position = (0, 0), scale = (1, 1), rotation = 0, damage = dmg\<rparr>"

definition Bullet_update :: "real \<Rightarrow> Bullet \<Rightarrow> Bullet" where
  "Bullet_update dt b = move 0 (- Bullet_speed * dt) b"

definition Bullet_isOffScreen :: "Bullet \<Rightarrow> bool" where
  "Bullet_isOffScreen b = (snd (getPosition b) < 0)"

record Laser = Entity +
  lifetime :: real
  damage :: real

definition Laser_new :: Laser where
  "Laser_new =
     setScale 0.5 10 \<lparr>texturePath = ''assets/images/weapons/laser.png'', position = (0, 0),
                      scale = (1, 1), rotation = 0, lifetime = 0.5, damage = 1\<rparr>"

definition Laser_update :: "real \<Rightarrow> Laser \<Rightarrow> Laser" where
  "Laser_update dt l = l\<lparr>Laser.lifetime := Laser.lifetime l - dt\<rparr>"

definition Laser_isActive :: "Laser \<Rightarrow> bool" where
  "Laser_isActive l = (Laser.lifetime l > 0)"

subsection \<open>Shield\<close>

record Shield = Entity +
  health :: real
  active :: bool

definition Shield_new :: Shield where
  "Shield_new =
     setScale 1.2 1.2 \<lparr>texturePath = ''assets/images/effects/shield.png'', position = (0, 0),
                       scale = (1, 1), rotation = 0, health = 100, active = False\<rparr>"

definition Shield_update :: "real \<Rightarrow> Shield \<Rightarrow> Shield" where
  "Shield_update dt s =
     (if active s then
        (let s1 = s\<lparr>health := Shield.health s - 10 * dt\<rparr>
         in if Shield.health s1 \<le> 0 then s1\<lparr>active := False\<rparr> else s1)
      else s)"

definition Shield_activate :: "Shield \<Rightarrow> Shield" where
  "Shield_activate s = s\<lparr>health := 100, active := True\<rparr>"

definition Shield_isActive :: "Shield \<Rightarrow> bool" where
  "Shield_isActive s = active s"

definition Shield_getHealth :: "Shield \<Rightarrow> real" where
  "Shield_getHealth s = Shield.health s"

definition Shield_takeDamage :: "real \<Rightarrow> Shield \<Rightarrow> Shield" where
  "Shield_takeDamage amount s =
     (let s1 = s\<lparr>health := Shield.health s - amount\<rparr>
      in if Shield.health s1 \<le> 0 then s1\<lparr>active := False\<rparr> else s1)"

subsection \<open>Player\<close>

text \<open>
  The keyboard and the clocks are read from \<open>Input\<close>: \<open>elapsed\<close> is
  \<open>clock.restart().asSeconds()\<close> of \<open>Game::run\<close>, \<open>shootElapsed\<close> is the reading of the
  player's \<open>shootClock\<close>, the \<open>key\<close> fields are \<open>sf::Keyboard::isKeyPressed\<close>, the
  \<open>rand\<close> fields are the values \<open>rand()\<close> returns at its four call sites, and
  \<open>random_device k\<close> gives the draws of an explosion constructed while \<open>k\<close> explosions
  are in the collection.
\<close>

datatype Key = Key_Return | Key_R | Key_Other

datatype Event = Closed | KeyPressed Key | OtherEvent

record Input =
  elapsed :: real
  events :: "Event list"
  keyLeft :: bool
  keyRight :: bool
  keyUp :: bool
  keyDown :: bool
  keySpace :: bool
  shootElapsed :: real
  rand_enemyType :: nat
  rand_enemyX :: nat
  rand_powerType :: nat
  rand_powerX :: nat
  random_device :: "nat \<Rightarrow> nat \<Rightarrow> real \<times> real \<times> real"

text \<open>
  The player owns its shield through a \<open>std::unique_ptr<Shield>\<close>, set by
  \<open>std::make_unique\<close> in the constructor and never reset: the pointer is never null.
\<close>

datatype 'a unique_ptr = make_unique (deref: 'a)

record Player = Entity +
  health :: int
  score :: int
  weaponType :: WeaponType
  shieldActive :: bool
  shield :: "Shield unique_ptr"

definition Player_speed :: real where
  "Player_speed = 300"

definition Player_new :: Player where
  "Player_new =
     setScale 0.5 0.5 \<lparr>texturePath = ''assets/images/player.png'', position = (0, 0),
                       scale = (1, 1), rotation = 0, health = 100, score = 0,
                       weaponType = Weapon_Basic, shieldActive = False,
                       shield = make_unique Shield_new\<rparr>"

definition Player_update :: "Input \<Rightarrow> real \<Rightarrow> Player \<Rightarrow> Player" where
  "Player_update inp dt p =
     (let p1 = (if keyLeft inp \<and> fst (getPosition p) > 0
                then move (- Player_speed * dt) 0 p else p);
          p2 = (if keyRight inp \<and> fst (getPosition p1) < 800
                then move (Player_speed * dt) 0 p1 else p1);
          p3 = (if keyUp inp \<and> snd (getPosition p2) > 0
                then move 0 (- Player_speed * dt) p2 else p2);
          p4 = (if keyDown inp \<and> snd (getPosition p3) < 600
                then move 0 (Player_speed * dt) p3 else p3)
      in if Shield_isActive (deref (shield p4))
         then p4\<lparr>shield := make_unique
                   (Shield_update dt (setPosition (getPosition p4) (deref (shield p4))))\<rparr>
         else p4)"

definition Player_cooldown :: "WeaponType \<Rightarrow> real" where
  "Player_cooldown w =
     (case w of Weapon_Basic \<Rightarrow> 0.25 | Weapon_Double \<Rightarrow> 0.2
              | Weapon_Triple \<Rightarrow> 0.15 | Weapon_Laser \<Rightarrow> 1.0)"

text \<open>
  \<open>canShoot\<close> restarts \<open>shootClock\<close> when it returns true; the later readings of the
  clock are inputs again, so the player record does not change.
\<close>

definition Player_canShoot :: "Input \<Rightarrow> Player \<Rightarrow> bool" where
  "Player_canShoot inp p = (shootElapsed inp > Player_cooldown (weaponType p))"

definition Player_shoot :: "Player \<Rightarrow> Bullet list" where
  "Player_shoot p =
     (let x = fst (getPosition p); y = snd (getPosition p) in
      case weaponType p of
        Weapon_Basic \<Rightarrow>
          [setPosition (x, y - 30) (Bullet_new ''assets/images/bullet.png'' 10)]
      | Weapon_Double \<Rightarrow>
          [setPosition (x - 20, y - 20) (Bullet_new ''assets/images/weapons/bullet1.png'' 15),
           setPosition (x + 20, y - 20) (Bullet_new ''assets/images/weapons/bullet1.png'' 15)]
      | Weapon_Triple \<Rightarrow>
          [setPosition (x, y - 30) (Bullet_new ''assets/images/weapons/bullet2.png'' 20),
           setPosition (x - 25, y - 15) (Bullet_new ''assets/images/weapons/bullet2.png'' 20),
           setPosition (x + 25, y - 15) (Bullet_new ''assets/images/weapons/bullet2.png'' 20)]
      | Weapon_Laser \<Rightarrow> [])"

definition Player_shootLaser :: "Player \<Rightarrow> Laser option" where
  "Player_shootLaser p =
     (if weaponType p = Weapon_Laser
      then Some (setPosition (fst (getPosition p), snd (getPosition p) - 300) Laser_new)
      else None)"

definition Player_takeDamage :: "int \<Rightarrow> Player \<Rightarrow> Player" where
  "Player_takeDamage amount p =
     (if Shield_isActive (deref (shield p))
      then p\<lparr>shield := make_unique (Shield_takeDamage (real_of_int amount) (deref (shield p)))\<rparr>
      else (let p1 = p\<lparr>health := Player.health p - amount\<rparr>
            in if Player.health p1 < 0 then p1\<lparr>health := 0\<rparr> else p1))"

definition Player_heal :: "int \<Rightarrow> Player \<Rightarrow> Player" where
  "Player_heal amount p =
     (let p1 = p\<lparr>health := Player.health p + amount\<rparr>
      in if Player.health p1 > 100 then p1\<lparr>health := 100\<rparr> else p1)"

definition Player_activateShield :: "Player \<Rightarrow> Player" where
  "Player_activateShield p = p\<lparr>shield := make_unique (Shield_activate (deref (shield p)))\<rparr>"

definition Player_addScore :: "int \<Rightarrow> Player \<Rightarrow> Player" where
  "Player_addScore points p = p\<lparr>score := score p + points\<rparr>"

definition Player_upgradeWeapon :: "Player \<Rightarrow> Player" where
  "Player_upgradeWeapon p =
     (case weaponType p of
        Weapon_Basic \<Rightarrow> p\<lparr>weaponType := Weapon_Double\<rparr>
      | Weapon_Double \<Rightarrow> p\<lparr>weaponType := Weapon_Triple\<rparr>
      | Weapon_Triple \<Rightarrow> p\<lparr>weaponType := Weapon_Laser\<rparr>
      | Weapon_Laser \<Rightarrow> Player_addScore 50 p)"

definition Player_getHealth :: "Player \<Rightarrow> int" where
  "Player_getHealth p = Player.health p"

definition Player_getScore :: "Player \<Rightarrow> int" where
  "Player_getScore p = score p"

definition Player_resetScore :: "Player \<Rightarrow> Player" where
  "Player_resetScore p = p\<lparr>score := 0\<rparr>"

definition Player_resetHealth :: "Player \<Rightarrow> Player" where
  "Player_resetHealth p = p\<lparr>health := 100\<rparr>"

definition Player_getWeaponType :: "Player \<Rightarrow> WeaponType" where
  "Player_getWeaponType p = weaponType p"

definition Player_resetWeapon :: "Player \<Rightarrow> Player" where
  "Player_resetWeapon p = p\<lparr>weaponType := Weapon_Basic\<rparr>"

definition Player_hasShield :: "Player \<Rightarrow> bool" where
  "Player_hasShield p = Shield_isActive (deref (shield p))"

definition Player_getShieldHealth :: "Player \<Rightarrow> real" where
  "Player_getShieldHealth p = Shield_getHealth (deref (shield p))"

subsection \<open>Enemy and BossEnemy\<close>

record Enemy = Entity +
  type :: EnemyType
  health :: real
  speed :: real
  scoreValue :: int

definition Enemy_new :: "string \<Rightarrow> EnemyType \<Rightarrow> real \<Rightarrow> real \<Rightarrow> int \<Rightarrow> Enemy" where
  "Enemy_new path ty h spd sv =
     setRotation 180 (setScale 0.5 0.5
       \<lparr>texturePath = path, position = (0, 0), scale = (1, 1), rotation = 0,
        type = ty, health = h, speed = spd, scoreValue = sv\<rparr>)"

definition Enemy_update :: "real \<Rightarrow> Enemy \<Rightarrow> Enemy" where
  "Enemy_update dt e = move 0 (speed e * dt) e"

definition Enemy_isOffScreen :: "'a Enemy_scheme \<Rightarrow> bool" where
  "Enemy_isOffScreen e = (snd (getPosition e) > 600)"

definition Enemy_takeDamage :: "real \<Rightarrow> 'a Enemy_scheme \<Rightarrow> 'a Enemy_scheme" where
  "Enemy_takeDamage amount e = e\<lparr>health := Enemy.health e - amount\<rparr>"

definition Enemy_isDestroyed :: "'a Enemy_scheme \<Rightarrow> bool" where
  "Enemy_isDestroyed e = (Enemy.health e \<le> 0)"

definition Enemy_getScoreValue :: "'a Enemy_scheme \<Rightarrow> int" where
  "Enemy_getScoreValue e = scoreValue e"

definition BasicEnemy_new :: Enemy where
  "BasicEnemy_new = Enemy_new ''assets/images/enemies/enemy1.png'' Enemy_Basic 20 150 10"

definition FastEnemy_new :: Enemy where
  "FastEnemy_new = Enemy_new ''assets/images/enemies/enemy2.png'' Enemy_Fast 10 250 15"

definition TankyEnemy_new :: Enemy where
  "TankyEnemy_new = Enemy_new ''assets/images/enemies/enemy3.png'' Enemy_Tanky 40 100 20"

datatype BossState = Entering | MovingLeft | MovingRight

record BossEnemy = Enemy +
  state :: BossState
  stateTime :: real
  shootCooldown :: real

definition BossEnemy_new :: BossEnemy where
  "BossEnemy_new =
     setScale 1 1 (setRotation 180 (setScale 0.5 0.5
       \<lparr>texturePath = ''assets/images/enemies/boss.png'', position = (0, 0), scale = (1, 1),
        rotation = 0, type = Enemy_Boss, health = 500, speed = 50, scoreValue = 500,
        state = Entering, stateTime = 0, shootCooldown = 0\<rparr>))"

definition BossEnemy_update :: "real \<Rightarrow> BossEnemy \<Rightarrow> BossEnemy" where
  "BossEnemy_update dt b0 =
     (let b = b0\<lparr>stateTime := stateTime b0 + dt, shootCooldown := shootCooldown b0 - dt\<rparr> in
      case state b of
        Entering \<Rightarrow>
          if snd (getPosition b) < 100 then move 0 (speed b * dt) b
          else b\<lparr>state := MovingLeft, stateTime := 0\<rparr>
      | MovingLeft \<Rightarrow>
          (let b1 = move (- speed b * 1.5 * dt) 0 b in
           if stateTime b1 > 2 \<or> fst (getPosition b1) < 100
           then b1\<lparr>state := MovingRight, stateTime := 0\<rparr> else b1)
      | MovingRight \<Rightarrow>
          (let b1 = move (speed b * 1.5 * dt) 0 b in
           if stateTime b1 > 2 \<or> fst (getPosition b1) > 700
           then b1\<lparr>state := MovingLeft, stateTime := 0\<rparr> else b1))"

text \<open>\<open>BossEnemy::canShoot\<close> returns its answer and the boss with the cooldown rearmed.\<close>

definition BossEnemy_canShoot :: "BossEnemy \<Rightarrow> bool \<times> BossEnemy" where
  "BossEnemy_canShoot b =
     (if shootCooldown b \<le> 0 then (True, b\<lparr>shootCooldown := 0.5\<rparr>) else (False, b))"

definition BossEnemy_shoot :: "BossEnemy \<Rightarrow> Bullet list" where
  "BossEnemy_shoot b =
     map (\<lambda>i. setRotation 180
                (setPosition (fst (getPosition b) + real_of_int i * 30, snd (getPosition b) + 50)
                   (Bullet_new ''assets/images/weapons/bullet2.png'' 10)))
         [-1, 0, 1]"

subsection \<open>PowerUp\<close>

record PowerUp = Entity +
  type :: PowerUpType

definition PowerUp_speed :: real where
  "PowerUp_speed = 150"

definition PowerUp_getTexturePath :: "PowerUpType \<Rightarrow> string" where
  "PowerUp_getTexturePath ty =
     (case ty of
        PowerUp_Health \<Rightarrow> ''assets/images/powerup.png''
      | PowerUp_Shield \<Rightarrow> ''assets/images/effects/shield.png''
      | PowerUp_WeaponUpgrade \<Rightarrow> ''assets/images/weapons/bullet2.png''
      | PowerUp_ScoreBoost \<Rightarrow> ''assets/images/powerup.png'')"

definition PowerUp_new :: "PowerUpType \<Rightarrow> PowerUp" where
  "PowerUp_new ty =
     setScale 0.5 0.5 \<lparr>texturePath = PowerUp_getTexturePath ty, position = (0, 0),
                       scale = (1, 1), rotation = 0, type = ty\<rparr>"

definition PowerUp_update :: "real \<Rightarrow> PowerUp \<Rightarrow> PowerUp" where
  "PowerUp_update dt u = move 0 (PowerUp_speed * dt) u"

definition PowerUp_isOffScreen :: "PowerUp \<Rightarrow> bool" where
  "PowerUp_isOffScreen u = (snd (getPosition u) > 600)"

subsection \<open>Level\<close>

record Level =
  currentLevel :: int
  enemiesDefeated :: int
  bossSpawned :: bool

definition Level_new :: Level where
  "Level_new = \<lparr>currentLevel = 1, enemiesDefeated = 0, bossSpawned = False\<rparr>"

definition Level_getEnemiesForNextLevel :: "Level \<Rightarrow> int" where
  "Level_getEnemiesForNextLevel lv = 20 + (currentLevel lv - 1) * 5"

definition Level_update :: "int \<Rightarrow> Level \<Rightarrow> Level" where
  "Level_update defeatedEnemies lv =
     (let lv1 = lv\<lparr>enemiesDefeated := enemiesDefeated lv + defeatedEnemies\<rparr>
      in if enemiesDefeated lv1 \<ge> Level_getEnemiesForNextLevel lv1 \<and> \<not> bossSpawned lv1
         then lv1\<lparr>currentLevel := currentLevel lv1 + 1, enemiesDefeated := 0, bossSpawned := True\<rparr>
         else lv1)"

definition Level_getCurrentLevel :: "Level \<Rightarrow> int" where
  "Level_getCurrentLevel lv = currentLevel lv"

definition Level_isBossLevel :: "Level \<Rightarrow> bool" where
  "Level_isBossLevel lv = bossSpawned lv"

definition Level_resetBossFlag :: "Level \<Rightarrow> Level" where
  "Level_resetBossFlag lv = lv\<lparr>bossSpawned := False\<rparr>"

definition Level_getEnemySpawnInterval :: "Level \<Rightarrow> real" where
  "Level_getEnemySpawnInterval lv = max (1.5 - real_of_int (currentLevel lv - 1) * 0.1) 0.5"

definition Level_getPowerUpSpawnInterval :: "Level \<Rightarrow> real" where
  "Level_getPowerUpSpawnInterval lv = max (10 - real_of_int (currentLevel lv - 1) * 0.5) 5"

definition Level_reset :: "Level \<Rightarrow> Level" where
  "Level_reset lv = lv\<lparr>currentLevel := 1, enemiesDefeated := 0, bossSpawned := False\<rparr>"

subsection \<open>Game\<close>

record Game =
  windowOpen :: bool
  gameState :: GameState
  deltaTime :: real
  player :: Player
  bullets :: "Bullet list"
  lasers :: "Laser list"
  enemies :: "Enemy list"
  powerups :: "PowerUp list"
  enemyBullets :: "Bullet list"
  boss :: "BossEnemy option"
  explosions :: "Explosion list"
  level :: Level
  enemySpawnTimer :: real
  powerupSpawnTimer :: real
  bossWarningVisible :: bool
  bossWarningTime :: real

definition Game_new :: Game where
  "Game_new =
     \<lparr>windowOpen = True, gameState = MainMenu, deltaTime = 0,
      player = setPosition (400, 550) Player_new,
      bullets = [], lasers = [], enemies = [], powerups = [], enemyBullets = [],
      boss = None, explosions = [], level = Level_new,
      enemySpawnTimer = 0, powerupSpawnTimer = 0,
      bossWarningVisible = False, bossWarningTime = 0\<rparr>"

text \<open>\<open>explosions.emplace_back(pos)\<close>: the new explosion takes its draws from the input.\<close>

definition emplace_explosion :: "Input \<Rightarrow> Vector2f \<Rightarrow> Game \<Rightarrow> Game" where
  "emplace_explosion inp pos g =
     g\<lparr>explosions := explosions g @ [Explosion_new (random_device inp (length (explosions g))) pos]\<rparr>"

definition startGame :: "Game \<Rightarrow> Game" where
  "startGame g =
     (let g1 = g\<lparr>gameState := Playing\<rparr>;
          g2 = g1\<lparr>player := Player_resetHealth (player g1)\<rparr>;
          g3 = g2\<lparr>player := Player_resetScore (player g2)\<rparr>;
          g4 = g3\<lparr>player := Player_resetWeapon (player g3)\<rparr>;
          g5 = g4\<lparr>player := setPosition (400, 550) (player g4)\<rparr>;
          g6 = g5\<lparr>bullets := [], lasers := [], enemies := [], powerups := [],
                  explosions := [], enemyBullets := [], boss := None\<rparr>;
          g7 = g6\<lparr>level := Level_reset (level g6)\<rparr>
      in g7\<lparr>enemySpawnTimer := 0, powerupSpawnTimer := 0\<rparr>)"

definition startBossFight :: "Game \<Rightarrow> Game" where
  "startBossFight g = g\<lparr>gameState := BossFight, bossWarningVisible := True, bossWarningTime := 0\<rparr>"

text \<open>
  \<open>spawnEnemy\<close>: \<open>rand() % maxEnemyType\<close> is undefined for a zero divisor, and the
  \<open>switch\<close> leaves the pointer null for a type other than 0, 1, 2, which
  \<open>enemy->setPosition\<close> then dereferences; both are \<open>None\<close>. \<open>rand()\<close> is not
  negative, so the truncating \<open>%\<close> of C++ is \<open>mod\<close> by the absolute value.
\<close>

definition spawnEnemy :: "Input \<Rightarrow> Game \<Rightarrow> Game option" where
  "spawnEnemy inp g =
     (let maxEnemyType = min 3 (Level_getCurrentLevel (level g)) in
      if maxEnemyType = 0 then None
      else
        (let enemyType = int (rand_enemyType inp) mod \<bar>maxEnemyType\<bar>;
             x = real (rand_enemyX inp mod 750 + 25)
         in if enemyType = 0 then Some (g\<lparr>enemies := enemies g @ [setPosition (x, -50) BasicEnemy_new]\<rparr>)
            else if enemyType = 1 then Some (g\<lparr>enemies := enemies g @ [setPosition (x, -50) FastEnemy_new]\<rparr>)
            else if enemyType = 2 then Some (g\<lparr>enemies := enemies g @ [setPosition (x, -50) TankyEnemy_new]\<rparr>)
            else None))"

definition PowerUpType_of_nat :: "nat \<Rightarrow> PowerUpType" where
  "PowerUpType_of_nat n =
     (if n = 0 then PowerUp_Health else if n = 1 then PowerUp_Shield
      else if n = 2 then PowerUp_WeaponUpgrade else PowerUp_ScoreBoost)"

definition spawnPowerUp :: "Input \<Rightarrow> Game \<Rightarrow> Game" where
  "spawnPowerUp inp g =
     (let ty = PowerUpType_of_nat (rand_powerType inp mod 4);
          x = real (rand_powerX inp mod 750 + 25)
      in g\<lparr>powerups := powerups g @ [setPosition (x, -50) (PowerUp_new ty)]\<rparr>)"

text \<open>
  \<open>updateBullets\<close>. The inner loop over the enemies stops at the first enemy the bullet
  intersects; it returns whether the bullet was removed, the enemy collection and the
  game with the explosion, score and level of a destroyed enemy.
\<close>

fun updateBullets_enemies ::
  "Intersects \<Rightarrow> Input \<Rightarrow> Bullet \<Rightarrow> Enemy list \<Rightarrow> Game \<Rightarrow> bool \<times> Enemy list \<times> Game" where
  "updateBullets_enemies isect inp b [] g = (False, [], g)"
| "updateBullets_enemies isect inp b (e # es) g =
     (if isect (sprite b) (sprite e) then
        (let e1 = Enemy_takeDamage (Bullet.damage b) e in
         if Enemy_isDestroyed e1 then
           (let g1 = emplace_explosion inp (getPosition e1) g;
                g2 = g1\<lparr>player := Player_addScore (Enemy_getScoreValue e1) (player g1)\<rparr>;
                g3 = g2\<lparr>level := Level_update 1 (level g2)\<rparr>
            in (True, es, g3))
         else (True, e1 # es, g))
      else
        (case updateBullets_enemies isect inp b es g of
           (removed, es', g') \<Rightarrow> (removed, e # es', g')))"

text \<open>One iteration of the outer loop: the bullet that stays, if it does, and the game.\<close>

definition updateBullets_body :: "Intersects \<Rightarrow> Input \<Rightarrow> Bullet \<Rightarrow> Game \<Rightarrow> Bullet option \<times> Game" where
  "updateBullets_body isect inp b0 g =
     (let b = Bullet_update (deltaTime g) b0 in
      case updateBullets_enemies isect inp b (enemies g) g of
        (removed, es, g') \<Rightarrow>
          (let g1 = g'\<lparr>enemies := es\<rparr> in
           if removed then (None, g1)
           else
             (case boss g1 of
                Some bs \<Rightarrow>
                  if isect (sprite b) (sprite bs)
                  then (None, g1\<lparr>boss := Some (Enemy_takeDamage (Bullet.damage b) bs)\<rparr>)
                  else if Bullet_isOffScreen b then (None, g1) else (Some b, g1)
              | None \<Rightarrow>
                  if Bullet_isOffScreen b then (None, g1) else (Some b, g1))))"

fun updateBullets_loop :: "Intersects \<Rightarrow> Input \<Rightarrow> Bullet list \<Rightarrow> Game \<Rightarrow> Bullet list \<times> Game" where
  "updateBullets_loop isect inp [] g = ([], g)"
| "updateBullets_loop isect inp (b0 # bs) g =
     (case updateBullets_body isect inp b0 g of
        (kept, g1) \<Rightarrow>
          (case updateBullets_loop isect inp bs g1 of
             (rest, g2) \<Rightarrow> ((case kept of None \<Rightarrow> rest | Some b \<Rightarrow> b # rest), g2)))"

definition updateBullets :: "Intersects \<Rightarrow> Input \<Rightarrow> Game \<Rightarrow> Game" where
  "updateBullets isect inp g =
     (case updateBullets_loop isect inp (bullets g) g of (bs, g') \<Rightarrow> g'\<lparr>bullets := bs\<rparr>)"

text \<open>\<open>updateLasers\<close>. The inner loop visits every enemy; nothing in it removes the laser.\<close>

fun updateLasers_enemies ::
  "Intersects \<Rightarrow> Input \<Rightarrow> Laser \<Rightarrow> Enemy list \<Rightarrow> Game \<Rightarrow> Enemy list \<times> Game" where
  "updateLasers_enemies isect inp l [] g = ([], g)"
| "updateLasers_enemies isect inp l (e # es) g =
     (if isect (sprite l) (sprite e) then
        (let e1 = Enemy_takeDamage (Laser.damage l) e in
         if Enemy_isDestroyed e1 then
           (let g1 = emplace_explosion inp (getPosition e1) g;
                g2 = g1\<lparr>player := Player_addScore (Enemy_getScoreValue e1) (player g1)\<rparr>;
                g3 = g2\<lparr>level := Level_update 1 (level g2)\<rparr>
            in updateLasers_enemies isect inp l es g3)
         else
           (case updateLasers_enemies isect inp l es g of
              (es', g') \<Rightarrow> (e1 # es', g')))
      else
        (case updateLasers_enemies isect inp l es g of
           (es', g') \<Rightarrow> (e # es', g')))"

definition updateLasers_body :: "Intersects \<Rightarrow> Input \<Rightarrow> Laser \<Rightarrow> Game \<Rightarrow> Laser option \<times> Game" where
  "updateLasers_body isect inp l0 g =
     (let l = Laser_update (deltaTime g) l0 in
      case updateLasers_enemies isect inp l (enemies g) g of
        (es, g') \<Rightarrow>
          (let g1 = g'\<lparr>enemies := es\<rparr>;
               g2 = (case boss g1 of
                       Some bs \<Rightarrow>
                         if isect (sprite l) (sprite bs)
                         then g1\<lparr>boss := Some (Enemy_takeDamage (Laser.damage l) bs)\<rparr>
                         else g1
                     | None \<Rightarrow> g1)
           in if \<not> Laser_isActive l then (None, g2) else (Some l, g2)))"

fun updateLasers_loop :: "Intersects \<Rightarrow> Input \<Rightarrow> Laser list \<Rightarrow> Game \<Rightarrow> Laser list \<times> Game" where
  "updateLasers_loop isect inp [] g = ([], g)"
| "updateLasers_loop isect inp (l0 # ls) g =
     (case updateLasers_body isect inp l0 g of
        (kept, g1) \<Rightarrow>
          (case updateLasers_loop isect inp ls g1 of
             (rest, g2) \<Rightarrow> ((case kept of None \<Rightarrow> rest | Some l \<Rightarrow> l # rest), g2)))"

definition updateLasers :: "Intersects \<Rightarrow> Input \<Rightarrow> Game \<Rightarrow> Game" where
  "updateLasers isect inp g =
     (case updateLasers_loop isect inp (lasers g) g of (ls, g') \<Rightarrow> g'\<lparr>lasers := ls\<rparr>)"

fun updateEnemies_loop :: "Intersects \<Rightarrow> Input \<Rightarrow> Enemy list \<Rightarrow> Game \<Rightarrow> Enemy list \<times> Game" where
  "updateEnemies_loop isect inp [] g = ([], g)"
| "updateEnemies_loop isect inp (e0 # es) g =
     (let e = Enemy_update (deltaTime g) e0 in
      if isect (sprite e) (sprite (player g)) then
        (let g1 = g\<lparr>player := Player_takeDamage 25 (player g)\<rparr>;
             g2 = emplace_explosion inp (getPosition e) g1;
             g3 = (if Player_getHealth (player g2) \<le> 0
                   then emplace_explosion inp (getPosition (player g2)) (g2\<lparr>gameState := GameOver\<rparr>)
                   else g2)
         in updateEnemies_loop isect inp es g3)
      else if Enemy_isOffScreen e then updateEnemies_loop isect inp es g
      else
        (case updateEnemies_loop isect inp es g of
           (es', g') \<Rightarrow> (e # es', g')))"

definition updateEnemies :: "Intersects \<Rightarrow> Input \<Rightarrow> Game \<Rightarrow> Game" where
  "updateEnemies isect inp g =
     (case updateEnemies_loop isect inp (enemies g) g of (es, g') \<Rightarrow> g'\<lparr>enemies := es\<rparr>)"

definition applyPowerUp :: "PowerUpType \<Rightarrow> Player \<Rightarrow> Player" where
  "applyPowerUp ty p =
     (case ty of
        PowerUp_Health \<Rightarrow> Player_heal 25 p
      | PowerUp_Shield \<Rightarrow> Player_activateShield p
      | PowerUp_WeaponUpgrade \<Rightarrow> Player_upgradeWeapon p
      | PowerUp_ScoreBoost \<Rightarrow> Player_addScore 50 p)"

fun updatePowerUps_loop :: "Intersects \<Rightarrow> PowerUp list \<Rightarrow> Game \<Rightarrow> PowerUp list \<times> Game" where
  "updatePowerUps_loop isect [] g = ([], g)"
| "updatePowerUps_loop isect (u0 # us) g =
     (let u = PowerUp_update (deltaTime g) u0 in
      if isect (sprite u) (sprite (player g)) then
        updatePowerUps_loop isect us (g\<lparr>player := applyPowerUp (PowerUp.type u) (player g)\<rparr>)
      else if PowerUp_isOffScreen u then updatePowerUps_loop isect us g
      else
        (case updatePowerUps_loop isect us g of
           (us', g') \<Rightarrow> (u # us', g')))"

definition updatePowerUps :: "Intersects \<Rightarrow> Game \<Rightarrow> Game" where
  "updatePowerUps isect g =
     (case updatePowerUps_loop isect (powerups g) g of (us, g') \<Rightarrow> g'\<lparr>powerups := us\<rparr>)"

fun updateExplosions_loop :: "real \<Rightarrow> Explosion list \<Rightarrow> Explosion list" where
  "updateExplosions_loop dt [] = []"
| "updateExplosions_loop dt (e # es) =
     (case Explosion_update dt e of
        (alive, e') \<Rightarrow>
          if \<not> alive then updateExplosions_loop dt es
          else e' # updateExplosions_loop dt es)"

definition updateExplosions :: "Game \<Rightarrow> Game" where
  "updateExplosions g = g\<lparr>explosions := updateExplosions_loop (deltaTime g) (explosions g)\<rparr>"

text \<open>
  The enemy-bullet loop written inside \<open>updateBossFight\<close>.
\<close>

fun updateEnemyBullets_loop :: "Intersects \<Rightarrow> Input \<Rightarrow> Bullet list \<Rightarrow> Game \<Rightarrow> Bullet list \<times> Game" where
  "updateEnemyBullets_loop isect inp [] g = ([], g)"
| "updateEnemyBullets_loop isect inp (b0 # bs) g =
     (let b = move 0 (300 * deltaTime g) b0 in
      if isect (sprite b) (sprite (player g)) then
        (let g1 = g\<lparr>player := Player_takeDamage 10 (player g)\<rparr>;
             g2 = (if Player_getHealth (player g1) \<le> 0
                   then emplace_explosion inp (getPosition (player g1)) (g1\<lparr>gameState := GameOver\<rparr>)
                   else g1)
         in updateEnemyBullets_loop isect inp bs g2)
      else if snd (getPosition b) > 600 then updateEnemyBullets_loop isect inp bs g
      else
        (case updateEnemyBullets_loop isect inp bs g of
           (bs', g') \<Rightarrow> (b # bs', g')))"

definition updateEnemyBullets :: "Intersects \<Rightarrow> Input \<Rightarrow> Game \<Rightarrow> Game" where
  "updateEnemyBullets isect inp g =
     (case updateEnemyBullets_loop isect inp (enemyBullets g) g of
        (bs, g') \<Rightarrow> g'\<lparr>enemyBullets := bs\<rparr>)"

text \<open>The block under \<open>// Shooting\<close>, the same in \<open>updatePlaying\<close> and \<open>updateBossFight\<close>.\<close>

definition shooting :: "Input \<Rightarrow> Game \<Rightarrow> Game" where
  "shooting inp g =
     (if keySpace inp \<and> Player_canShoot inp (player g) then
        (if Player_getWeaponType (player g) = Weapon_Laser then
           (case Player_shootLaser (player g) of
              Some laser \<Rightarrow> g\<lparr>lasers := lasers g @ [laser]\<rparr>
            | None \<Rightarrow> g)
         else g\<lparr>bullets := bullets g @ Player_shoot (player g)\<rparr>)
      else g)"

definition updatePlaying :: "Intersects \<Rightarrow> Input \<Rightarrow> Game \<Rightarrow> Game option" where
  "updatePlaying isect inp g =
     (let g1 = g\<lparr>player := Player_update inp (deltaTime g) (player g)\<rparr>;
          g2 = shooting inp g1;
          g3 = g2\<lparr>enemySpawnTimer := enemySpawnTimer g2 + deltaTime g2\<rparr>
      in case (if enemySpawnTimer g3 \<ge> Level_getEnemySpawnInterval (level g3)
               then map_option (\<lambda>h. h\<lparr>enemySpawnTimer := 0\<rparr>) (spawnEnemy inp g3)
               else Some g3) of
           None \<Rightarrow> None
         | Some g4 \<Rightarrow>
             (let g5 = g4\<lparr>powerupSpawnTimer := powerupSpawnTimer g4 + deltaTime g4\<rparr>;
                  g6 = (if powerupSpawnTimer g5 \<ge> Level_getPowerUpSpawnInterval (level g5)
                        then (spawnPowerUp inp g5)\<lparr>powerupSpawnTimer := 0\<rparr>
                        else g5);
                  g7 = updateBullets isect inp g6;
                  g8 = updateLasers isect inp g7;
                  g9 = updateEnemies isect inp g8;
                  g10 = updatePowerUps isect g9;
                  g11 = updateExplosions g10
              in Some (if Level_isBossLevel (level g11) then startBossFight g11 else g11)))"

text \<open>The block under \<open>// Update boss\<close> of \<open>updateBossFight\<close>.\<close>

definition updateBoss :: "Input \<Rightarrow> Game \<Rightarrow> Game" where
  "updateBoss inp g =
     (case boss g of
        None \<Rightarrow> g\<lparr>boss := Some (setPosition (400, -50) BossEnemy_new)\<rparr>
      | Some b0 \<Rightarrow>
          (let b1 = BossEnemy_update (deltaTime g) b0 in
           case BossEnemy_canShoot b1 of
             (can, b2) \<Rightarrow>
               (let g1 = g\<lparr>boss := Some b2\<rparr>;
                    g2 = (if can then g1\<lparr>enemyBullets := enemyBullets g1 @ BossEnemy_shoot b2\<rparr>
                          else g1)
                in if Enemy_isDestroyed b2 then
                     (let g3 = emplace_explosion inp (getPosition b2) g2;
                          g4 = g3\<lparr>player := Player_addScore (Enemy_getScoreValue b2) (player g3)\<rparr>;
                          g5 = g4\<lparr>boss := None\<rparr>;
                          g6 = g5\<lparr>level := Level_resetBossFlag (level g5)\<rparr>
                      in if Level_getCurrentLevel (level g6) \<ge> 5
                         then g6\<lparr>gameState := Victory\<rparr>
                         else g6\<lparr>gameState := Playing\<rparr>)
                   else g2)))"

definition updateBossFight :: "Intersects \<Rightarrow> Input \<Rightarrow> Game \<Rightarrow> Game" where
  "updateBossFight isect inp g =
     (let g1 = g\<lparr>player := Player_update inp (deltaTime g) (player g)\<rparr>;
          g2 = shooting inp g1;
          g3 = updateBoss inp g2;
          g4 = updateBullets isect inp g3;
          g5 = updateEnemyBullets isect inp g4;
          g6 = updateLasers isect inp g5;
          g7 = updateExplosions g6
      in if bossWarningVisible g7 then
           (let g8 = g7\<lparr>bossWarningTime := bossWarningTime g7 + deltaTime g7\<rparr>
            in if bossWarningTime g8 \<ge> 3 then g8\<lparr>bossWarningVisible := False\<rparr> else g8)
         else g7)"

definition update :: "Intersects \<Rightarrow> Input \<Rightarrow> Game \<Rightarrow> Game option" where
  "update isect inp g =
     (case gameState g of
        MainMenu \<Rightarrow> Some g
      | Playing \<Rightarrow> updatePlaying isect inp g
      | BossFight \<Rightarrow> Some (updateBossFight isect inp g)
      | GameOver \<Rightarrow> Some (updateExplosions g)
      | Victory \<Rightarrow> Some (updateExplosions g))"

fun handleEvents :: "Event list \<Rightarrow> Game \<Rightarrow> Game" where
  "handleEvents [] g = g"
| "handleEvents (ev # evs) g =
     (let g1 = (if ev = Closed then g\<lparr>windowOpen := False\<rparr> else g);
          g2 = (case ev of
                  KeyPressed k \<Rightarrow>
                    if gameState g1 = MainMenu \<and> k = Key_Return then startGame g1
                    else if (gameState g1 = GameOver \<or> gameState g1 = Victory) \<and> k = Key_R
                    then startGame g1
                    else g1
                | _ \<Rightarrow> g1)
      in handleEvents evs g2)"

text \<open>
  One iteration of the loop of \<open>Game::run\<close> (without \<open>render\<close>), and the loop itself over
  the inputs of the successive frames. The clock never runs backwards: an input is
  admissible when its \<open>elapsed\<close> is not negative.
\<close>

definition run_iteration :: "Intersects \<Rightarrow> Input \<Rightarrow> Game \<Rightarrow> Game option" where
  "run_iteration isect inp g =
     (let g1 = g\<lparr>deltaTime := elapsed inp\<rparr>;
          g2 = handleEvents (events inp) g1
      in update isect inp g2)"

fun run :: "Intersects \<Rightarrow> Input list \<Rightarrow> Game \<Rightarrow> Game option" where
  "run isect [] g = Some g"
| "run isect (inp # inps) g =
     (if windowOpen g then
        (case run_iteration isect inp g of
           None \<Rightarrow> None
         | Some g' \<Rightarrow> run isect inps g')
      else Some g)"

text \<open>
  The states the program is in at the three points of the loop body of \<open>Game::run\<close>:
  after the clock is read, after \<open>handleEvents\<close> and after \<open>update\<close>. The steps are
  closed under any order, which only adds states.
\<close>

inductive reachable :: "Intersects \<Rightarrow> Game \<Rightarrow> bool" for isect :: Intersects where
  reachable_init: "reachable isect Game_new"
| reachable_clock: "reachable isect g \<Longrightarrow> 0 \<le> dt \<Longrightarrow> reachable isect (g\<lparr>deltaTime := dt\<rparr>)"
| reachable_events: "reachable isect g \<Longrightarrow> reachable isect (handleEvents evs g)"
| reachable_update: "reachable isect g \<Longrightarrow> update isect inp g = Some g' \<Longrightarrow> reachable isect g'"

text \<open>
  The underlying values of \<open>enum class WeaponType\<close>, in declaration order; they order the
  weapon tiers.
\<close>

definition WeaponType_rank :: "WeaponType \<Rightarrow> nat" where
  "WeaponType_rank w =
     (case w of Weapon_Basic \<Rightarrow> 0 | Weapon_Double \<Rightarrow> 1 | Weapon_Triple \<Rightarrow> 2 | Weapon_Laser \<Rightarrow> 3)"


subsection \<open>Auxiliary notions for the statements\<close>


definition shield_full :: "Player \<Rightarrow> bool" where
  "shield_full p = (Player_getShieldHealth p = 100 \<and> Player_hasShield p)"

subsection \<open>Concrete inputs and states\<close>

text \<open>
  \<open>box_intersects w h\<close> is the bounding-box test when the textures make the bounds of
  every sprite \<open>w\<close> wide and \<open>h\<close> high: two such boxes centred at the positions of the
  sprites overlap exactly when the positions differ by less than \<open>w\<close> and \<open>h\<close>.
  \<open>idle_input\<close> is a frame of 1/64 s with no key held and no event.
\<close>

definition box_intersects :: "real \<Rightarrow> real \<Rightarrow> Intersects" where
  "box_intersects w h a b =
     (\<bar>fst (Entity.position a) - fst (Entity.position b)\<bar> < w \<and>
      \<bar>snd (Entity.position a) - snd (Entity.position b)\<bar> < h)"

definition idle_input :: Input where
  "idle_input =
     \<lparr>elapsed = 1 / 64, events = [], keyLeft = False, keyRight = False, keyUp = False,
      keyDown = False, keySpace = False, shootElapsed = 0, rand_enemyType = 0,
      rand_enemyX = 0, rand_powerType = 0, rand_powerX = 0,
      random_device = (\<lambda>k i. (0, 64, 1))\<rparr>"


definition wave_bullet :: Bullet where
  "wave_bullet = setPosition (100, 250) (Bullet_new ''assets/images/bullet.png'' 10)"

definition wave_laser :: Laser where
  "wave_laser = setPosition (105, 100) Laser_new"

text \<open>A lost game with every collection populated.\<close>

definition over_game :: Game where
  "over_game =
     Game_new\<lparr>gameState := GameOver,
              player := (setPosition (120, 300) Player_new)
                          \<lparr>Player.health := 0, score := 135, weaponType := Weapon_Triple\<rparr>,
              bullets := [wave_bullet], lasers := [wave_laser],
              enemies := [setPosition (100, 100) TankyEnemy_new],
              powerups := [setPosition (300, 200) (PowerUp_new PowerUp_Health)],
              enemyBullets := [wave_bullet],
              boss := Some (setPosition (400, 100) BossEnemy_new),
              explosions := [Explosion_new (\<lambda>i. (0, 64, 1)) (120, 300)],
              level := \<lparr>currentLevel = 3, enemiesDefeated = 7, bossSpawned = True\<rparr>\<rparr>"

text \<open>
  A player whose active shield is down to 35, with a Shield power-up 50 above it.
\<close>

definition pickup_game :: Game where
  "pickup_game =
     Game_new\<lparr>gameState := Playing, deltaTime := 1 / 4,
              player := Player_takeDamage 65 (Player_activateShield (setPosition (400, 550) Player_new)),
              powerups := [setPosition (300, 200) (PowerUp_new PowerUp_Health),
                           setPosition (400, 500) (PowerUp_new PowerUp_Shield)]\<rparr>"

text \<open>The first frame of a boss fight: no boss yet.\<close>

definition bossfight_game :: Game where
  "bossfight_game = Game_new\<lparr>gameState := BossFight, deltaTime := 1 / 4\<rparr>"

subsection \<open>Invariants\<close>

text \<open>
  The bounds that hold of the player, of an enemy of the collection and of the rest of
  the game between the steps of the loop. \<open>advances g g'\<close> relates a state to a later
  one of the same frame: the later state is within the bounds and its score is not
  smaller.
\<close>

definition player_ok :: "Player \<Rightarrow> bool" where
  "player_ok p =
     (0 \<le> Player_getHealth p \<and> Player_getHealth p \<le> 100 \<and>
      Player_getShieldHealth p \<le> 100 \<and>
      (Player_hasShield p \<longrightarrow> 0 < Player_getShieldHealth p))"

definition enemy_ok :: "Enemy \<Rightarrow> bool" where
  "enemy_ok e = (0 < Enemy.health e \<and> 0 \<le> scoreValue e)"

definition core_ok :: "Game \<Rightarrow> bool" where
  "core_ok g =
     (player_ok (player g) \<and> 1 \<le> currentLevel (level g) \<and> 0 \<le> deltaTime g \<and>
      (case boss g of None \<Rightarrow> True | Some b \<Rightarrow> 0 \<le> scoreValue b))"

definition Game_inv :: "Game \<Rightarrow> bool" where
  "Game_inv g = (core_ok g \<and> list_all enemy_ok (enemies g))"

definition advances :: "Game \<Rightarrow> Game \<Rightarrow> bool" where
  "advances g g' = (core_ok g' \<and> score (player g) \<le> score (player g'))"


text \<open>
  The window of 800 by 600, and the window widened by a margin \<open>m\<close> on every side.
\<close>

definition within_margin :: "real \<Rightarrow> Vector2f \<Rightarrow> bool" where
  "within_margin m pos =
     (- m \<le> fst pos \<and> fst pos \<le> 800 + m \<and> - m \<le> snd pos \<and> snd pos \<le> 600 + m)"

definition within_window :: "Vector2f \<Rightarrow> bool" where
  "within_window pos = (0 \<le> fst pos \<and> fst pos \<le> 800 \<and> 0 \<le> snd pos \<and> snd pos \<le> 600)"

definition edge_player :: Player where
  "edge_player = setPosition (798.4375, 550) Player_new"

definition right_input :: Input where
  "right_input = idle_input\<lparr>keyRight := True\<rparr>"

definition stalled_game :: Game where
  "stalled_game =
     Game_new\<lparr>gameState := BossFight,
              enemies := [setPosition (100, 100) BasicEnemy_new],
              powerups := [setPosition (200, 100) (PowerUp_new PowerUp_Health)],
              enemyBullets := [setPosition (300, 200) (Bullet_new ''assets/images/weapons/bullet2.png'' 10)],
              boss := Some (setPosition (400, 100) BossEnemy_new),
              level := \<lparr>currentLevel = 2, enemiesDefeated = 0, bossSpawned = True\<rparr>\<rparr>"

definition resumed_game :: Game where
  "resumed_game = stalled_game\<lparr>gameState := Playing, boss := None, level := Level_resetBossFlag (level stalled_game)\<rparr>"


section \<open>Properties\<close>

text \<open>The defining equations of the model, for evaluating it on concrete states.\<close>

named_theorems model_defs

lemmas [model_defs] =
  Particle_update_def Explosion_update_def sprite_def setPosition_def move_def
  getPosition_def setScale_def setRotation_def Bullet_speed_def Bullet_new_def
  Bullet_update_def Bullet_isOffScreen_def Laser_new_def Laser_update_def Laser_isActive_def
  Shield_new_def Shield_update_def Shield_activate_def Shield_isActive_def
  Shield_getHealth_def Shield_takeDamage_def Player_speed_def Player_new_def
  Player_update_def Player_cooldown_def Player_canShoot_def Player_shoot_def
  Player_shootLaser_def Player_takeDamage_def Player_heal_def Player_activateShield_def
  Player_addScore_def Player_upgradeWeapon_def Player_getHealth_def Player_getScore_def
  Player_resetScore_def Player_resetHealth_def Player_getWeaponType_def
  Player_resetWeapon_def Player_hasShield_def Player_getShieldHealth_def Enemy_new_def
  Enemy_update_def Enemy_isOffScreen_def Enemy_takeDamage_def Enemy_isDestroyed_def
  Enemy_getScoreValue_def BasicEnemy_new_def FastEnemy_new_def TankyEnemy_new_def
  BossEnemy_new_def BossEnemy_update_def BossEnemy_canShoot_def BossEnemy_shoot_def
  PowerUp_speed_def PowerUp_getTexturePath_def PowerUp_new_def PowerUp_update_def
  PowerUp_isOffScreen_def Level_new_def Level_getEnemiesForNextLevel_def Level_update_def
  Level_getCurrentLevel_def Level_isBossLevel_def Level_resetBossFlag_def
  Level_getEnemySpawnInterval_def Level_getPowerUpSpawnInterval_def Level_reset_def
  Game_new_def emplace_explosion_def startGame_def startBossFight_def spawnEnemy_def
  PowerUpType_of_nat_def spawnPowerUp_def updateBullets_body_def updateBullets_def
  updateLasers_body_def updateLasers_def updateEnemies_def applyPowerUp_def
  updatePowerUps_def updateExplosions_def updateEnemyBullets_def shooting_def
  updatePlaying_def updateBoss_def updateBossFight_def update_def run_iteration_def
  box_intersects_def idle_input_def Entity.truncate_def Let_def

subsection \<open>Player damage\<close>

text \<open>
  Claim C1. With the shield inactive, \<open>Player::takeDamage(amount)\<close> leaves the health
  \<open>max 0 (h - amount)\<close> and changes nothing else. With the shield active, the player's
  health is unchanged whatever the amount is, and the whole amount is subtracted from the
  shield's health: the call is \<open>Shield::takeDamage(amount)\<close> on the shield and nothing
  else.
\<close>

theorem Player_takeDamage_routes:
  "(\<not> Player_hasShield p \<longrightarrow>
      Player_takeDamage amount p = p\<lparr>Player.health := max 0 (Player.health p - amount)\<rparr>) \<and>
   (Player_hasShield p \<longrightarrow>
      Player.health (Player_takeDamage amount p) = Player.health p \<and>
      Player_takeDamage amount p =
        p\<lparr>shield := make_unique (Shield_takeDamage (real_of_int amount) (deref (shield p)))\<rparr> \<and>
      Player_getShieldHealth (Player_takeDamage amount p) =
        Player_getShieldHealth p - real_of_int amount)"
  by (simp add: Player_takeDamage_def Shield_takeDamage_def Let_def max_def
        Player_hasShield_def Player_getShieldHealth_def Shield_getHealth_def)

theorem Player_takeDamage_routes_witness:
  "\<not> Player_hasShield Player_new \<and>
   Player.health (Player_takeDamage 25 Player_new) = 75 \<and>
   Player.health (Player_takeDamage 125 Player_new) = 0 \<and>
   Player_hasShield (Player_activateShield Player_new) \<and>
   Player.health (Player_takeDamage 125 (Player_activateShield Player_new)) = 100 \<and>
   Player_getShieldHealth (Player_takeDamage 125 (Player_activateShield Player_new)) = -25"
  using Player_takeDamage_routes [of Player_new 25]
        Player_takeDamage_routes [of Player_new 125]
        Player_takeDamage_routes [of "Player_activateShield Player_new" 125]
  by (simp add: Player_new_def Shield_new_def setScale_def Player_activateShield_def
        Shield_activate_def Shield_isActive_def Shield_takeDamage_def Let_def
        Player_hasShield_def Player_getShieldHealth_def Shield_getHealth_def)

subsection \<open>Level progression\<close>

text \<open>
  Claim C5. The threshold of level \<open>L\<close> is \<open>20 + 5 * (L - 1)\<close>. When \<open>Level::update\<close>
  brings the counter to the threshold or beyond and the boss flag is not set, the level
  grows by exactly one, the counter is 0 and the flag is set. While the flag is set the
  call only adds to the counter: the level and the flag stay as they are. Below the
  threshold the call only adds to the counter.
\<close>

theorem Level_update_threshold:
  "Level_getEnemiesForNextLevel lv = 20 + 5 * (currentLevel lv - 1) \<and>
   (enemiesDefeated lv + d \<ge> 20 + 5 * (currentLevel lv - 1) \<and> \<not> bossSpawned lv \<longrightarrow>
      Level_update d lv =
        \<lparr>currentLevel = currentLevel lv + 1, enemiesDefeated = 0, bossSpawned = True\<rparr>) \<and>
   (bossSpawned lv \<longrightarrow>
      Level_update d lv = lv\<lparr>enemiesDefeated := enemiesDefeated lv + d\<rparr> \<and>
      currentLevel (Level_update d lv) = currentLevel lv \<and>
      bossSpawned (Level_update d lv)) \<and>
   (enemiesDefeated lv + d < 20 + 5 * (currentLevel lv - 1) \<longrightarrow>
      Level_update d lv = lv\<lparr>enemiesDefeated := enemiesDefeated lv + d\<rparr>)"
  by (simp add: Level_update_def Level_getEnemiesForNextLevel_def Let_def)

theorem Level_update_threshold_witness:
  "Level_update 1 \<lparr>currentLevel = 2, enemiesDefeated = 24, bossSpawned = False\<rparr> =
     \<lparr>currentLevel = 3, enemiesDefeated = 0, bossSpawned = True\<rparr> \<and>
   Level_update 1 \<lparr>currentLevel = 3, enemiesDefeated = 40, bossSpawned = True\<rparr> =
     \<lparr>currentLevel = 3, enemiesDefeated = 41, bossSpawned = True\<rparr> \<and>
   Level_update 1 \<lparr>currentLevel = 2, enemiesDefeated = 23, bossSpawned = False\<rparr> =
     \<lparr>currentLevel = 2, enemiesDefeated = 24, bossSpawned = False\<rparr>"
  using Level_update_threshold [of "\<lparr>currentLevel = 2, enemiesDefeated = 24, bossSpawned = False\<rparr>" 1]
        Level_update_threshold [of "\<lparr>currentLevel = 3, enemiesDefeated = 40, bossSpawned = True\<rparr>" 1]
        Level_update_threshold [of "\<lparr>currentLevel = 2, enemiesDefeated = 23, bossSpawned = False\<rparr>" 1]
  by simp

subsection \<open>Weapon upgrades\<close>

text \<open>
  Claim C6. \<open>Player::upgradeWeapon\<close> takes Basic to Double, Double to Triple and Triple to
  Laser: one step forward in the order of the tiers, never backwards. At Laser the tier
  stays and the score grows by exactly 50; below Laser the score is unchanged.
\<close>

theorem Player_upgradeWeapon_tiers:
  "weaponType (Player_upgradeWeapon p) =
     (case weaponType p of
        Weapon_Basic \<Rightarrow> Weapon_Double | Weapon_Double \<Rightarrow> Weapon_Triple
      | Weapon_Triple \<Rightarrow> Weapon_Laser | Weapon_Laser \<Rightarrow> Weapon_Laser) \<and>
   WeaponType_rank (weaponType (Player_upgradeWeapon p)) = min 3 (WeaponType_rank (weaponType p) + 1) \<and>
   WeaponType_rank (weaponType p) \<le> WeaponType_rank (weaponType (Player_upgradeWeapon p)) \<and>
   score (Player_upgradeWeapon p) = (if weaponType p = Weapon_Laser then score p + 50 else score p)"
  by (cases "weaponType p")
     (simp_all add: Player_upgradeWeapon_def Player_addScore_def WeaponType_rank_def)

subsection \<open>Bullets and lasers against enemies\<close>




lemma deltaTime_emplace_explosion [simp]:
  "deltaTime (emplace_explosion inp pos g) = deltaTime g"
  by (simp add: emplace_explosion_def)

lemma deltaTime_updateLasers_enemies [simp]:
  "deltaTime (snd (updateLasers_enemies isect inp l es g)) = deltaTime g"
  by (induction es arbitrary: g) (simp_all add: Let_def case_prod_beta)


lemma deltaTime_updateLasers_body [simp]:
  "deltaTime (snd (updateLasers_body isect inp l0 g)) = deltaTime g"
  by (simp add: updateLasers_body_def Let_def case_prod_beta split: option.splits)










subsection \<open>Restart\<close>

text \<open>
  Claim C7. \<open>startGame\<close> sets the health to 100, the score to 0 and the weapon to Basic,
  empties the bullets, lasers, enemies, power-ups, explosions and enemy bullets, clears
  the boss, resets the level and sets the state to Playing, from any state. In the states
  GameOver and Victory the key R runs \<open>startGame\<close>.
\<close>

theorem startGame_resets:
  "Player.health (player (startGame g)) = 100 \<and>
   score (player (startGame g)) = 0 \<and>
   weaponType (player (startGame g)) = Weapon_Basic \<and>
   bullets (startGame g) = [] \<and> lasers (startGame g) = [] \<and> enemies (startGame g) = [] \<and>
   powerups (startGame g) = [] \<and> explosions (startGame g) = [] \<and>
   enemyBullets (startGame g) = [] \<and> boss (startGame g) = None \<and>
   level (startGame g) = \<lparr>currentLevel = 1, enemiesDefeated = 0, bossSpawned = False\<rparr> \<and>
   gameState (startGame g) = Playing \<and>
   ((gameState g = GameOver \<or> gameState g = Victory) \<longrightarrow>
      handleEvents [KeyPressed Key_R] g = startGame g)"
  by (simp add: startGame_def Let_def Player_resetHealth_def Player_resetScore_def
        Player_resetWeapon_def setPosition_def Level_reset_def)

theorem startGame_resets_witness:
  "gameState over_game = GameOver \<and>
   gameState (handleEvents [KeyPressed Key_R] over_game) = Playing \<and>
   Player.health (player (handleEvents [KeyPressed Key_R] over_game)) = 100 \<and>
   score (player (handleEvents [KeyPressed Key_R] over_game)) = 0 \<and>
   weaponType (player (handleEvents [KeyPressed Key_R] over_game)) = Weapon_Basic \<and>
   enemies (handleEvents [KeyPressed Key_R] over_game) = [] \<and>
   boss (handleEvents [KeyPressed Key_R] over_game) = None \<and>
   currentLevel (level (handleEvents [KeyPressed Key_R] over_game)) = 1"
proof -
  have s: "gameState over_game = GameOver" by (simp add: over_game_def)
  then have "handleEvents [KeyPressed Key_R] over_game = startGame over_game"
    using startGame_resets [of over_game] by blast
  then show ?thesis using s startGame_resets [of over_game] by simp
qed

subsection \<open>Shield activation\<close>

lemma sprite_applyPowerUp [simp]: "sprite (applyPowerUp ty p) = sprite p"
  by (cases ty; cases "weaponType p")
     (simp_all add: applyPowerUp_def sprite_def Entity.truncate_def Player_heal_def Let_def
        Player_activateShield_def Player_upgradeWeapon_def Player_addScore_def)

lemma shield_full_applyPowerUp:
  "shield_full p \<or> ty = PowerUp_Shield \<Longrightarrow> shield_full (applyPowerUp ty p)"
  by (cases ty; cases "weaponType p")
     (auto simp add: applyPowerUp_def shield_full_def Player_heal_def Let_def
        Player_activateShield_def Player_upgradeWeapon_def Player_addScore_def
        Shield_activate_def Shield_isActive_def Player_hasShield_def Player_getShieldHealth_def
        Shield_getHealth_def)

lemma updatePowerUps_loop_frame [simp]:
  "deltaTime (snd (updatePowerUps_loop isect us g)) = deltaTime g"
  "sprite (player (snd (updatePowerUps_loop isect us g))) = sprite (player g)"
  by (induction us arbitrary: g) (simp_all add: Let_def case_prod_beta)

lemma updatePowerUps_loop_keeps_full:
  "shield_full (player g) \<Longrightarrow> shield_full (player (snd (updatePowerUps_loop isect us g)))"
  by (induction us arbitrary: g) (simp_all add: Let_def case_prod_beta shield_full_applyPowerUp)

lemma updatePowerUps_loop_shield:
  assumes "u \<in> set us" and "PowerUp.type u = PowerUp_Shield"
    and "isect (sprite (PowerUp_update (deltaTime g) u)) (sprite (player g))"
  shows "shield_full (player (snd (updatePowerUps_loop isect us g)))"
  using assms
proof (induction us arbitrary: g)
  case Nil
  then show ?case by simp
next
  case (Cons a us)
  show ?case
  proof (cases "a = u")
    case True
    have t: "PowerUp.type (PowerUp_update (deltaTime g) u) = PowerUp_Shield"
      using Cons.prems(2) by (simp add: PowerUp_update_def move_def)
    show ?thesis
      using Cons.prems(3) True t
      by (simp add: Let_def updatePowerUps_loop_keeps_full shield_full_applyPowerUp)
  next
    case False
    then have mem: "u \<in> set us" using Cons.prems(1) by simp
    show ?thesis
      using Cons.IH [OF mem Cons.prems(2)] Cons.prems(3)
      by (simp add: Let_def case_prod_beta)
  qed
qed

lemma updatePowerUps_shield:
  assumes "u \<in> set (powerups g)" and "PowerUp.type u = PowerUp_Shield"
    and "isect (sprite (PowerUp_update (deltaTime g) u)) (sprite (player g))"
  shows "shield_full (player (updatePowerUps isect g))"
  using updatePowerUps_loop_shield [where isect = isect, OF assms]
  by (simp add: updatePowerUps_def case_prod_beta)

text \<open>
  Claim C9. \<open>Shield::activate\<close> sets the shield's health to 100 and marks it active,
  whatever its health and flag were, and so does \<open>Player::activateShield\<close>. In
  \<open>updatePowerUps\<close>, when a Shield power-up of the collection, once moved, intersects
  the player, the pass ends with the shield active at health 100.
\<close>

theorem activateShield_refills:
  "Shield.health (Shield_activate s) = 100 \<and> Shield_isActive (Shield_activate s) \<and>
   Player_getShieldHealth (Player_activateShield p) = 100 \<and>
   Player_hasShield (Player_activateShield p) \<and>
   applyPowerUp PowerUp_Shield p = Player_activateShield p \<and>
   (u \<in> set (powerups g) \<and> PowerUp.type u = PowerUp_Shield \<and>
    isect (sprite (PowerUp_update (deltaTime g) u)) (sprite (player g)) \<longrightarrow>
      Player_getShieldHealth (player (updatePowerUps isect g)) = 100 \<and>
      Player_hasShield (player (updatePowerUps isect g)))"
  using updatePowerUps_shield [of u g isect]
  by (simp add: Shield_activate_def Player_activateShield_def Shield_isActive_def
        Player_hasShield_def Player_getShieldHealth_def Shield_getHealth_def applyPowerUp_def
        shield_full_def)

theorem activateShield_refills_witness:
  "Player_getShieldHealth (player pickup_game) = 35 \<and> Player_hasShield (player pickup_game) \<and>
   Player_getShieldHealth (player (updatePowerUps (box_intersects 40 40) pickup_game)) = 100 \<and>
   Player_hasShield (player (updatePowerUps (box_intersects 40 40) pickup_game))"
  using activateShield_refills
          [where u = "setPosition (400, 500) (PowerUp_new PowerUp_Shield)" and g = pickup_game
             and isect = "box_intersects 40 40"]
  by (simp add: pickup_game_def Game_new_def Player_new_def Shield_new_def PowerUp_new_def
        PowerUp_update_def PowerUp_speed_def box_intersects_def sprite_def Entity.truncate_def
        setPosition_def setScale_def move_def Player_takeDamage_def Player_activateShield_def
        Shield_activate_def Shield_takeDamage_def Shield_isActive_def Player_hasShield_def
        Player_getShieldHealth_def Shield_getHealth_def Let_def)

subsection \<open>The first shot of the boss\<close>

lemma updateBoss_creates:
  "boss g = None \<Longrightarrow>
   updateBoss inp g = g\<lparr>boss := Some (setPosition (400, -50) BossEnemy_new)\<rparr>"
  by (simp add: updateBoss_def)

lemma BossEnemy_update_fresh:
  "0 \<le> dt \<Longrightarrow> shootCooldown (BossEnemy_update dt (setPosition pos BossEnemy_new)) \<le> 0"
  by (simp add: BossEnemy_new_def BossEnemy_update_def setScale_def setRotation_def
        setPosition_def move_def getPosition_def Let_def)

lemma health_BossEnemy_update [simp]:
  "Enemy.health (BossEnemy_update dt b) = Enemy.health b"
  by (simp add: BossEnemy_update_def Let_def move_def split: BossState.splits)

lemma updateBoss_first_update:
  assumes "boss g = Some (setPosition pos BossEnemy_new)" and "0 \<le> deltaTime g"
  shows "enemyBullets (updateBoss inp g) =
           enemyBullets g @
           BossEnemy_shoot (snd (BossEnemy_canShoot (BossEnemy_update (deltaTime g) (setPosition pos BossEnemy_new))))"
proof -
  let ?b1 = "BossEnemy_update (deltaTime g) (setPosition pos BossEnemy_new)"
  have c: "shootCooldown ?b1 \<le> 0" using assms(2) by (rule BossEnemy_update_fresh)
  have h: "Enemy.health ?b1 = 500"
    by (simp add: BossEnemy_new_def setScale_def setRotation_def setPosition_def)
  show ?thesis
    using c h by (simp add: updateBoss_def assms(1) Let_def BossEnemy_canShoot_def Enemy_isDestroyed_def)
qed

text \<open>
  Claim C10. A new \<open>BossEnemy\<close> has shoot cooldown 0 and \<open>canShoot\<close> is true for it. The
  frame of a boss fight that finds no boss creates it, without updating it or shooting.
  On the next frame the boss is updated and, the frame time being non-negative,
  \<open>canShoot\<close> is true and the three bullets of \<open>shoot\<close> join the enemy bullets. A true
  \<open>canShoot\<close> sets the cooldown to 0.5, and \<open>canShoot\<close> is false right after.
\<close>

theorem boss_fires_on_first_update:
  "shootCooldown BossEnemy_new = 0 \<and>
   fst (BossEnemy_canShoot BossEnemy_new) \<and>
   length (BossEnemy_shoot b) = 3 \<and>
   (fst (BossEnemy_canShoot b) \<longrightarrow>
      shootCooldown (snd (BossEnemy_canShoot b)) = 1 / 2 \<and>
      \<not> fst (BossEnemy_canShoot (snd (BossEnemy_canShoot b)))) \<and>
   (boss g = None \<longrightarrow>
      updateBoss inp g = g\<lparr>boss := Some (setPosition (400, -50) BossEnemy_new)\<rparr>) \<and>
   (boss g = Some (setPosition pos BossEnemy_new) \<and> 0 \<le> deltaTime g \<longrightarrow>
      fst (BossEnemy_canShoot (BossEnemy_update (deltaTime g) (setPosition pos BossEnemy_new))) \<and>
      enemyBullets (updateBoss inp g) =
        enemyBullets g @
        BossEnemy_shoot (snd (BossEnemy_canShoot
          (BossEnemy_update (deltaTime g) (setPosition pos BossEnemy_new)))))"
proof -
  have a: "shootCooldown BossEnemy_new = 0 \<and> fst (BossEnemy_canShoot BossEnemy_new)"
    by (simp add: BossEnemy_new_def BossEnemy_canShoot_def setScale_def setRotation_def)
  have b: "length (BossEnemy_shoot b) = 3"
    by (simp add: BossEnemy_shoot_def)
  have c: "fst (BossEnemy_canShoot b) \<longrightarrow>
      shootCooldown (snd (BossEnemy_canShoot b)) = 1 / 2 \<and>
      \<not> fst (BossEnemy_canShoot (snd (BossEnemy_canShoot b)))"
    by (simp add: BossEnemy_canShoot_def)
  have d: "fst (BossEnemy_canShoot (BossEnemy_update (deltaTime g) (setPosition pos BossEnemy_new)))"
    if "0 \<le> deltaTime g"
    using BossEnemy_update_fresh [OF that, of pos] by (simp add: BossEnemy_canShoot_def)
  show ?thesis
    using a b c d updateBoss_creates [of g inp] updateBoss_first_update [of g pos inp]
    by blast
qed

theorem boss_fires_on_first_update_witness:
  "boss bossfight_game = None \<and>
   boss (updateBoss idle_input bossfight_game) = Some (setPosition (400, -50) BossEnemy_new) \<and>
   enemyBullets (updateBoss idle_input bossfight_game) = [] \<and>
   map getPosition (enemyBullets (updateBoss idle_input (updateBoss idle_input bossfight_game)))
     = [(370, 25 / 2), (400, 25 / 2), (430, 25 / 2)]"
proof -
  let ?g1 = "bossfight_game\<lparr>boss := Some (setPosition (400, -50) BossEnemy_new)\<rparr>"
  have n: "boss bossfight_game = None"
    by (simp add: bossfight_game_def Game_new_def)
  have first: "updateBoss idle_input bossfight_game = ?g1"
    using n boss_fires_on_first_update [of BossEnemy_new bossfight_game idle_input "(400, -50)"]
    by blast
  have pre: "boss ?g1 = Some (setPosition (400, -50) BossEnemy_new) \<and> 0 \<le> deltaTime ?g1"
    by (simp add: bossfight_game_def Game_new_def)
  have second: "enemyBullets (updateBoss idle_input ?g1) =
      enemyBullets ?g1 @ BossEnemy_shoot (snd (BossEnemy_canShoot
          (BossEnemy_update (deltaTime ?g1) (setPosition (400, -50) BossEnemy_new))))"
    using pre boss_fires_on_first_update [of BossEnemy_new ?g1 idle_input "(400, -50)"]
    by blast
  show ?thesis
    unfolding first second
    by (simp add: n bossfight_game_def Game_new_def BossEnemy_shoot_def BossEnemy_canShoot_def
          BossEnemy_update_def BossEnemy_new_def Bullet_new_def setPosition_def setScale_def
          setRotation_def move_def getPosition_def Let_def)
qed

subsection \<open>Movement of the player\<close>

lemma getPosition_Player_update:
  "getPosition (Player_update inp dt p) =
     (let x = fst (getPosition p); y = snd (getPosition p);
          x1 = (if keyLeft inp \<and> x > 0 then x - Player_speed * dt else x);
          x2 = (if keyRight inp \<and> x1 < 800 then x1 + Player_speed * dt else x1);
          y1 = (if keyUp inp \<and> y > 0 then y - Player_speed * dt else y);
          y2 = (if keyDown inp \<and> y1 < 600 then y1 + Player_speed * dt else y1)
      in (x2, y2))"
proof -
  have m: "getPosition (move dx dy e) = (fst (getPosition e) + dx, snd (getPosition e) + dy)"
    for dx dy and e :: Player
    by (simp add: getPosition_def move_def)
  have s: "getPosition (e\<lparr>shield := sh\<rparr>) = getPosition e" for sh and e :: Player
    by (simp add: getPosition_def)
  show ?thesis
    unfolding Player_update_def Let_def
    by (auto simp add: m s)
qed

text \<open>
  Claim C8 fails as stated. \<open>Player::update\<close> tests the position before the move and
  then moves by the full step: from x = 798.4375, which the player reaches from its start
  at x = 400 after 85 frames of 1/64 s with the right key held, one more such frame
  gives x = 803.125, beyond the right edge of the window.
\<close>

theorem Player_update_leaves_window:
  "within_window (getPosition edge_player) \<and>
   getPosition (Player_update right_input (1 / 64) edge_player) = (803.125, 550) \<and>
   \<not> within_window (getPosition (Player_update right_input (1 / 64) edge_player))"
proof -
  have p: "getPosition edge_player = (798.4375, 550)"
    by (simp add: edge_player_def getPosition_def setPosition_def)
  have k: "keyRight right_input \<and> \<not> keyLeft right_input \<and> \<not> keyUp right_input \<and>
           \<not> keyDown right_input"
    by (simp add: right_input_def idle_input_def)
  show ?thesis
    by (simp add: getPosition_Player_update p k within_window_def Player_speed_def)
qed

text \<open>
  Claim C8, amended. A step of \<open>300 * dt\<close> in a held direction is taken exactly when the
  position is strictly inside the window on that side (left and up before right and
  down), and the result is not clamped. So the position overshoots an edge by less than
  one step: for a frame time \<open>dt \<ge> 0\<close> whose step is at most \<open>m\<close>, a position within
  the window widened by \<open>m\<close> on every side stays within it.
\<close>

theorem Player_update_within_margin:
  "getPosition (Player_update inp dt p) =
     (let x = fst (getPosition p); y = snd (getPosition p);
          x1 = (if keyLeft inp \<and> x > 0 then x - Player_speed * dt else x);
          x2 = (if keyRight inp \<and> x1 < 800 then x1 + Player_speed * dt else x1);
          y1 = (if keyUp inp \<and> y > 0 then y - Player_speed * dt else y);
          y2 = (if keyDown inp \<and> y1 < 600 then y1 + Player_speed * dt else y1)
      in (x2, y2)) \<and>
   (0 \<le> dt \<and> Player_speed * dt \<le> m \<and> within_margin m (getPosition p) \<longrightarrow>
      within_margin m (getPosition (Player_update inp dt p)))"
proof -
  have "0 \<le> Player_speed * dt" if "0 \<le> dt"
    using that by (simp add: Player_speed_def)
  then have "0 \<le> dt \<and> Player_speed * dt \<le> m \<and> within_margin m (getPosition p) \<longrightarrow>
      within_margin m (getPosition (Player_update inp dt p))"
    unfolding getPosition_Player_update within_margin_def Let_def
    by (auto simp: Player_speed_def)
  then show ?thesis
    using getPosition_Player_update [of inp dt p] by blast
qed

theorem Player_update_within_margin_witness:
  "within_margin (300 / 64) (getPosition edge_player) \<and>
   within_margin (300 / 64) (getPosition (Player_update right_input (1 / 64) edge_player))"
proof -
  have h: "(0::real) \<le> 1 / 64 \<and> Player_speed * (1 / 64) \<le> 300 / 64 \<and>
           within_margin (300 / 64) (getPosition edge_player)"
    by (simp add: Player_speed_def within_margin_def edge_player_def getPosition_def
          setPosition_def Player_new_def setScale_def)
  show ?thesis
    using h Player_update_within_margin
              [where dt = "1 / 64" and m = "300 / 64" and p = edge_player and inp = right_input]
    by blast
qed

subsection \<open>What a frame advances\<close>

lemma untouched_emplace_explosion [simp]:
  "powerups (emplace_explosion inp pos g) = powerups g"
  "enemyBullets (emplace_explosion inp pos g) = enemyBullets g"
  by (simp_all add: emplace_explosion_def)

lemma untouched_shooting [simp]:
  "powerups (shooting inp g) = powerups g"
  "enemyBullets (shooting inp g) = enemyBullets g"
  "enemies (shooting inp g) = enemies g"
  by (simp_all add: shooting_def split: option.splits)

lemma untouched_updateBullets_enemies [simp]:
  "powerups (snd (snd (updateBullets_enemies isect inp b es g))) = powerups g"
  "enemyBullets (snd (snd (updateBullets_enemies isect inp b es g))) = enemyBullets g"
  by (induction es) (simp_all add: Let_def case_prod_beta)

lemma untouched_updateBullets_body [simp]:
  "powerups (snd (updateBullets_body isect inp b0 g)) = powerups g"
  "enemyBullets (snd (updateBullets_body isect inp b0 g)) = enemyBullets g"
  by (simp_all add: updateBullets_body_def Let_def case_prod_beta split: option.splits)

lemma untouched_updateBullets_loop [simp]:
  "powerups (snd (updateBullets_loop isect inp bs g)) = powerups g"
  "enemyBullets (snd (updateBullets_loop isect inp bs g)) = enemyBullets g"
  by (induction bs arbitrary: g) (simp_all add: case_prod_beta)

lemma untouched_updateBullets [simp]:
  "powerups (updateBullets isect inp g) = powerups g"
  "enemyBullets (updateBullets isect inp g) = enemyBullets g"
  by (simp_all add: updateBullets_def case_prod_beta)

lemma untouched_updateLasers_enemies [simp]:
  "powerups (snd (updateLasers_enemies isect inp l es g)) = powerups g"
  "enemyBullets (snd (updateLasers_enemies isect inp l es g)) = enemyBullets g"
  by (induction es arbitrary: g) (simp_all add: Let_def case_prod_beta)

lemma untouched_updateLasers_body [simp]:
  "powerups (snd (updateLasers_body isect inp l0 g)) = powerups g"
  "enemyBullets (snd (updateLasers_body isect inp l0 g)) = enemyBullets g"
  by (simp_all add: updateLasers_body_def Let_def case_prod_beta split: option.splits)

lemma untouched_updateLasers_loop [simp]:
  "powerups (snd (updateLasers_loop isect inp ls g)) = powerups g"
  "enemyBullets (snd (updateLasers_loop isect inp ls g)) = enemyBullets g"
  by (induction ls arbitrary: g) (simp_all add: case_prod_beta)

lemma untouched_updateLasers [simp]:
  "powerups (updateLasers isect inp g) = powerups g"
  "enemyBullets (updateLasers isect inp g) = enemyBullets g"
  by (simp_all add: updateLasers_def case_prod_beta)

lemma untouched_updateEnemies_loop [simp]:
  "enemyBullets (snd (updateEnemies_loop isect inp es g)) = enemyBullets g"
  by (induction es arbitrary: g) (simp_all add: Let_def case_prod_beta)

lemma untouched_updatePowerUps_loop [simp]:
  "enemyBullets (snd (updatePowerUps_loop isect us g)) = enemyBullets g"
  by (induction us arbitrary: g) (simp_all add: Let_def case_prod_beta)

lemma untouched_updateEnemyBullets_loop [simp]:
  "powerups (snd (updateEnemyBullets_loop isect inp bs g)) = powerups g"
  by (induction bs arbitrary: g) (simp_all add: Let_def case_prod_beta)

lemma untouched_updateBoss [simp]:
  "powerups (updateBoss inp g) = powerups g"
  "enemies (updateBoss inp g) = enemies g"
  by (simp_all add: updateBoss_def Let_def case_prod_beta emplace_explosion_def
        split: option.splits)

text \<open>A boss-fight frame leaves the power-up collection as it was, whatever the state.\<close>

lemma updateBossFight_powerups:
  "powerups (updateBossFight isect inp g) = powerups g"
  by (simp add: updateBossFight_def Let_def updateExplosions_def updateEnemyBullets_def
        case_prod_beta)

text \<open>A playing frame leaves the enemy bullets as they were, whatever the state.\<close>

lemma updatePlaying_enemyBullets:
  assumes "updatePlaying isect inp g = Some g'"
  shows "enemyBullets g' = enemyBullets g"
proof -
  have sp: "enemyBullets h' = enemyBullets h" if "spawnEnemy inp h = Some h'" for h h'
    using that by (auto simp add: spawnEnemy_def Let_def split: if_splits)
  have st: "enemyBullets (startBossFight h) = enemyBullets h" for h
    by (simp add: startBossFight_def)
  have pw: "enemyBullets (spawnPowerUp inp h) = enemyBullets h" for h
    by (simp add: spawnPowerUp_def Let_def)
  show ?thesis
    using assms
    by (auto simp add: updatePlaying_def Let_def updateExplosions_def updatePowerUps_def
          updateEnemies_def case_prod_beta st pw dest!: sp split: option.splits if_splits)
qed

text \<open>
  In a boss-fight frame with no player bullet and no laser in the collections and the
  fire key up, the enemy collection does not change at all.
\<close>

lemma updateBossFight_enemies:
  assumes "bullets g = []" and "lasers g = []" and "\<not> keySpace inp"
  shows "enemies (updateBossFight isect inp g) = enemies g"
proof -
  have sh: "shooting inp h = h" for h
    using assms(3) by (simp add: shooting_def)
  have ub: "updateBullets isect inp h = h" if "bullets h = []" for h
    using that by (simp add: updateBullets_def)
  have ul: "updateLasers isect inp h = h" if "lasers h = []" for h
    using that by (simp add: updateLasers_def)
  have b1: "bullets (updateBoss inp h) = bullets h" and l1: "lasers (updateBoss inp h) = lasers h" for h
    by (simp_all add: updateBoss_def Let_def case_prod_beta emplace_explosion_def
          split: option.splits)
  have l2: "lasers (snd (updateEnemyBullets_loop isect inp bs h)) = lasers h"
    and e2: "enemies (snd (updateEnemyBullets_loop isect inp bs h)) = enemies h" for bs h
    by (induction bs arbitrary: h) (simp_all add: Let_def case_prod_beta emplace_explosion_def)
  show ?thesis
    by (simp add: updateBossFight_def Let_def sh ub ul b1 l1 l2 e2 assms(1,2)
          updateEnemyBullets_def updateExplosions_def case_prod_beta)
qed

text \<open>
  Claim C4 fails on the code. A boss-fight frame (\<open>updateBossFight\<close>) never calls
  \<open>updateEnemies\<close> or \<open>updatePowerUps\<close>, and a playing frame (\<open>updatePlaying\<close>) never
  runs the enemy-bullet loop, as the three lemmas above say of every state. In
  \<open>stalled_game\<close>, a boss fight with an enemy and a power-up on screen, a frame of 1/64 s
  leaves both where they were, while the enemy bullets move; in \<open>resumed_game\<close>, the same
  collections in the Playing state, the frame moves the enemy and the power-up and leaves
  the enemy bullet where it was.
\<close>

theorem frozen_collections:
  "map_option (map getPosition \<circ> enemies)
     (run_iteration (box_intersects 40 40) idle_input stalled_game) = Some [(100, 100)] \<and>
   map_option (map getPosition \<circ> powerups)
     (run_iteration (box_intersects 40 40) idle_input stalled_game) = Some [(200, 100)] \<and>
   map_option (map getPosition \<circ> enemyBullets)
     (run_iteration (box_intersects 40 40) idle_input stalled_game)
       = Some [(300, 204.6875), (370, 154.6875), (400, 154.6875), (430, 154.6875)] \<and>
   map_option (map getPosition \<circ> enemies)
     (run_iteration (box_intersects 40 40) idle_input resumed_game) = Some [(100, 102.34375)] \<and>
   map_option (map getPosition \<circ> powerups)
     (run_iteration (box_intersects 40 40) idle_input resumed_game) = Some [(200, 102.34375)] \<and>
   map_option (map getPosition \<circ> enemyBullets)
     (run_iteration (box_intersects 40 40) idle_input resumed_game) = Some [(300, 200)]"
  by (simp add: model_defs stalled_game_def resumed_game_def)

subsection \<open>Bounds on health and score\<close>

lemmas player_sels = Player_getHealth_def Player_getShieldHealth_def Player_hasShield_def
  Shield_getHealth_def Shield_isActive_def


lemma score_takeDamage [simp]: "score (Player_takeDamage a p) = score p"
  by (simp add: Player_takeDamage_def Let_def player_sels)

lemma player_ok_addScore [simp]: "player_ok (Player_addScore n p) = player_ok p"
  by (simp add: player_ok_def player_sels Player_addScore_def)

lemma score_addScore [simp]: "score (Player_addScore n p) = score p + n"
  by (simp add: Player_addScore_def)




lemma score_Player_update [simp]: "score (Player_update inp dt p) = score p"
  by (simp add: Player_update_def Let_def move_def)




lemma core_ok_emplace_explosion [simp]: "core_ok (emplace_explosion inp pos g) = core_ok g"
  by (simp add: core_ok_def emplace_explosion_def)

lemma player_emplace_explosion [simp]: "player (emplace_explosion inp pos g) = player g"
  by (simp add: emplace_explosion_def)



lemma scoreValue_takeDamage [simp]:
  "Enemy_getScoreValue (Enemy_takeDamage d e) = scoreValue e"
  by (simp add: Enemy_takeDamage_def Enemy_getScoreValue_def)



lemma core_ok_enemies_update [simp]: "core_ok (g\<lparr>enemies := es\<rparr>) = core_ok g"
  by (simp add: core_ok_def)

lemma advances_enemies_update [simp]: "advances g (g'\<lparr>enemies := es\<rparr>) = advances g g'"
  by (simp add: advances_def)



lemma core_ok_bullets_update [simp]: "core_ok (g\<lparr>bullets := bs\<rparr>) = core_ok g"
  by (simp add: core_ok_def)

lemma Game_inv_bullets_update [simp]: "Game_inv (g\<lparr>bullets := bs\<rparr>) = Game_inv g"
  by (simp add: Game_inv_def)

lemma advances_bullets_update [simp]: "advances g (g'\<lparr>bullets := bs\<rparr>) = advances g g'"
  by (simp add: advances_def)





lemma Game_inv_lasers_update [simp]: "Game_inv (g\<lparr>lasers := ls\<rparr>) = Game_inv g"
  by (simp add: Game_inv_def core_ok_def)

lemma advances_lasers_update [simp]: "advances g (g'\<lparr>lasers := ls\<rparr>) = advances g g'"
  by (simp add: advances_def core_ok_def)



lemma enemy_ok_update [simp]: "enemy_ok (Enemy_update dt e) = enemy_ok e"
  by (simp add: enemy_ok_def Enemy_update_def move_def)







lemma enemies_updatePowerUps_loop [simp]:
  "enemies (snd (updatePowerUps_loop isect us g)) = enemies g"
  by (induction us arbitrary: g) (simp_all add: Let_def case_prod_beta)




lemma enemies_updateEnemyBullets_loop [simp]:
  "enemies (snd (updateEnemyBullets_loop isect inp bs g)) = enemies g"
  by (induction bs arbitrary: g) (simp_all add: Let_def case_prod_beta emplace_explosion_def)


lemma scoreValue_BossEnemy_update [simp]: "scoreValue (BossEnemy_update dt b) = scoreValue b"
  by (simp add: BossEnemy_update_def Let_def move_def split: BossState.splits)

lemma scoreValue_BossEnemy_canShoot [simp]:
  "scoreValue (snd (BossEnemy_canShoot b)) = scoreValue b"
  by (simp add: BossEnemy_canShoot_def)




lemma enemy_ok_new [simp]:
  "enemy_ok (setPosition v BasicEnemy_new)" "enemy_ok (setPosition v FastEnemy_new)"
  "enemy_ok (setPosition v TankyEnemy_new)"
  by (simp_all add: enemy_ok_def BasicEnemy_new_def FastEnemy_new_def TankyEnemy_new_def
        Enemy_new_def setPosition_def setScale_def setRotation_def)



lemma timers_ok [simp]:
  "Game_inv (g\<lparr>enemySpawnTimer := t\<rparr>) = Game_inv g"
  "Game_inv (g\<lparr>powerupSpawnTimer := t\<rparr>) = Game_inv g"
  "advances g0 (g\<lparr>enemySpawnTimer := t\<rparr>) = advances g0 g"
  "advances g0 (g\<lparr>powerupSpawnTimer := t\<rparr>) = advances g0 g"
  by (simp_all add: Game_inv_def advances_def core_ok_def)











lemma score_startGame [simp]: "score (player (startGame g)) = 0"
  by (simp add: startGame_def Let_def Player_resetHealth_def Player_resetScore_def
        Player_resetWeapon_def setPosition_def)





lemma run_iteration_reachable:
  assumes "reachable isect g" and "0 \<le> elapsed inp" and "run_iteration isect inp g = Some g'"
  shows "reachable isect g'"
proof -
  have "reachable isect (handleEvents (events inp) (g\<lparr>deltaTime := elapsed inp\<rparr>))"
    by (rule reachable_events, rule reachable_clock, rule assms(1), rule assms(2))
  then show ?thesis
    using assms(3) unfolding run_iteration_def Let_def by (rule reachable_update)
qed

lemma run_reachable:
  "reachable isect g \<Longrightarrow> list_all (\<lambda>i. 0 \<le> elapsed i) inps \<Longrightarrow>
   run isect inps g = Some g' \<Longrightarrow> reachable isect g'"
proof (induction inps arbitrary: g)
  case Nil
  then show ?case by simp
next
  case (Cons inp inps)
  show ?case
  proof (cases "windowOpen g")
    case False
    then show ?thesis using Cons.prems by simp
  next
    case True
    then obtain g1 where it: "run_iteration isect inp g = Some g1"
      and rest: "run isect inps g1 = Some g'"
      using Cons.prems(3) by (auto split: option.splits)
    have "reachable isect g1"
      using Cons.prems(1,2) it by (auto intro: run_iteration_reachable)
    then show ?thesis using Cons.IH [OF _ _ rest] Cons.prems(2) by simp
  qed
qed




end
